theory Spec2Isabelle
  imports Complex_Main
begin

section \<open>Data model\<close>

text \<open>
  The development embeds \<^verbatim>\<open>gateway/metrics/add_metrics.go\<close>: the metric value
  parser \<^verbatim>\<open>parseMetricValue\<close>, the merge \<^verbatim>\<open>mixIn\<close> and the decorator
  \<^verbatim>\<open>AddMetricsHandler\<close> with its helper \<^verbatim>\<open>writeResponse\<close>.

  Go's \<^verbatim>\<open>float64\<close> is the type parameter \<open>'f\<close>, of which only the constant \<open>0\<close> and
  the operation \<open>+\<close> are used and of which no law is assumed (floating-point addition is
  not associative), so every theorem below holds for whatever \<open>0\<close> and \<open>+\<close> are.
  A Go \<^verbatim>\<open>error\<close> is its message; \<open>None\<close> is the \<^verbatim>\<open>nil\<close> error.
\<close>

type_synonym error = string

text \<open>
  A value of type \<^verbatim>\<open>interface{}\<close> as the JSON decoder produces it: \<^verbatim>\<open>nil\<close>, a
  \<^verbatim>\<open>bool\<close>, a \<^verbatim>\<open>float64\<close>, a \<^verbatim>\<open>string\<close>, a slice or a map.
\<close>

datatype 'f any =
    INil
  | IBool bool
  | IFloat64 'f
  | IString string
  | ISlice "'f any list"
  | IMap "(string \<times> 'f any) list"

text \<open>
  Modelled from the spec: \<^verbatim>\<open>requests.Function\<close>, declared outside the file. The spec
  gives it the key \<open>Name\<close> and the four derived fields; the record's extension slot
  (\<open>Function.more\<close>) stands for every other field the struct may have.
\<close>

record 'f Function =
  Name :: string
  InvocationCount :: 'f
  InvocationCount2XX :: 'f
  InvocationCountNon2XX :: 'f
  AverageResponseTime :: 'f

text \<open>
  Modelled from the spec: \<^verbatim>\<open>VectorQueryResponse\<close>, declared outside the file. The
  field paths are the ones the source reads (\<^verbatim>\<open>x.Data.Result\<close>,
  \<^verbatim>\<open>v.Metric.FunctionName\<close>, \<^verbatim>\<open>v.Value[1]\<close>); the spec gives each sample a
  label set with \<open>function_name\<close> and a value tuple (timestamp, value), so
  \<^verbatim>\<open>v.Value[1]\<close> is the second component of the pair.
\<close>

record Labels =
  FunctionName :: string

record 'f Sample =
  Metric :: Labels
  Value :: "'f any \<times> 'f any"

record 'f ResultData =
  Result :: "'f Sample list"

record 'f VectorQueryResponse =
  Data :: "'f ResultData"


section \<open>Metric value parser\<close>

text \<open>
  \<^verbatim>\<open>parseMetricValue\<close> has named results \<^verbatim>\<open>(parsedValue float64, err error)\<close>, which
  start as \<open>0\<close> and \<^verbatim>\<open>nil\<close>. The type switch has the single case \<^verbatim>\<open>string\<close>, which
  assigns both results from \<^verbatim>\<open>strconv.ParseFloat\<close>; the library function is the
  parameter \<open>ParseFloat\<close>, returning the value and the error as Go does.
\<close>

definition parseMetricValue ::
  "(string \<Rightarrow> 'f \<times> error option) \<Rightarrow> 'f any \<Rightarrow> ('f::zero) \<times> error option" where
  "parseMetricValue ParseFloat metricValue =
     (case metricValue of
        IString s \<Rightarrow> ParseFloat s
      | _ \<Rightarrow> (0, None))"


section \<open>Merge\<close>

text \<open>
  A run-time panic of the Go program is a value: an index expression \<^verbatim>\<open>s[i]\<close> with
  \<open>i\<close> out of range stops the function with \<open>Inl IndexOutOfRange\<close>, and a field
  selection through a \<^verbatim>\<open>nil\<close> pointer with \<open>Inl NilDereference\<close>.
\<close>

datatype panic = IndexOutOfRange | NilDereference

definition index :: "'a list \<Rightarrow> nat \<Rightarrow> panic + 'a" where
  "index xs i = (if i < length xs then Inr (xs ! i) else Inl IndexOutOfRange)"

text \<open>An assignment to fields of \<^verbatim>\<open>s[i]\<close>: \<open>g\<close> is the change to the element.\<close>

definition assignAt :: "nat \<Rightarrow> ('a \<Rightarrow> 'a) \<Rightarrow> 'a list \<Rightarrow> panic + 'a list" where
  "assignAt i g xs = (if i < length xs then Inr (xs[i := g (xs ! i)]) else Inl IndexOutOfRange)"

text \<open>
  A \<^verbatim>\<open>for ... range\<close> loop over the items \<open>xs\<close> with the loop body \<open>body\<close> acting on the
  state \<open>s\<close>; a panic in the body ends the loop.
\<close>

fun rangeLoop :: "('a \<Rightarrow> 's \<Rightarrow> panic + 's) \<Rightarrow> 'a list \<Rightarrow> 's \<Rightarrow> panic + 's" where
  "rangeLoop body [] s = Inr s"
| "rangeLoop body (x # xs) s =
     (case body x s of Inl p \<Rightarrow> Inl p | Inr s' \<Rightarrow> rangeLoop body xs s')"

text \<open>
  The first loop of \<^verbatim>\<open>mixIn\<close>: \<^verbatim>\<open>for i := range *functions\<close> assigns \<open>0\<close> to the four
  fields of \<^verbatim>\<open>(*functions)[i]\<close>.
\<close>

definition resetAt ::
  "nat \<Rightarrow> ('f::zero, 'z) Function_scheme list \<Rightarrow> panic + ('f, 'z) Function_scheme list" where
  "resetAt i fs =
     assignAt i (\<lambda>f. f\<lparr>InvocationCount := 0, InvocationCount2XX := 0,
                       InvocationCountNon2XX := 0, AverageResponseTime := 0\<rparr>) fs"

text \<open>
  The bodies of the four inner loops, one per response. For a sample \<open>v\<close> whose
  \<open>function_name\<close> equals the name of the copied element \<^verbatim>\<open>function\<close>, the body parses
  \<^verbatim>\<open>v.Value[1]\<close> and, when the error is \<^verbatim>\<open>nil\<close>, adds the value to the field of
  \<^verbatim>\<open>(*functions)[i]\<close>. The last two loops test the name twice, as the source does.
\<close>

definition addInvocationCount ::
  "(string \<Rightarrow> 'f \<times> error option) \<Rightarrow> nat \<Rightarrow> string \<Rightarrow> 'f Sample
     \<Rightarrow> ('f::{zero,plus}, 'z) Function_scheme list \<Rightarrow> panic + ('f, 'z) Function_scheme list" where
  "addInvocationCount ParseFloat i name v fs =
     (if FunctionName (Metric v) = name then
        (case parseMetricValue ParseFloat (snd (Value v)) of
           (parsedValue, None) \<Rightarrow>
             assignAt i (\<lambda>f. f\<lparr>InvocationCount := InvocationCount f + parsedValue\<rparr>) fs
         | (parsedValue, Some err) \<Rightarrow> Inr fs)
      else Inr fs)"

definition addInvocationCount2XX ::
  "(string \<Rightarrow> 'f \<times> error option) \<Rightarrow> nat \<Rightarrow> string \<Rightarrow> 'f Sample
     \<Rightarrow> ('f::{zero,plus}, 'z) Function_scheme list \<Rightarrow> panic + ('f, 'z) Function_scheme list" where
  "addInvocationCount2XX ParseFloat i name v fs =
     (if FunctionName (Metric v) = name then
        (case parseMetricValue ParseFloat (snd (Value v)) of
           (parsedValue, None) \<Rightarrow>
             assignAt i (\<lambda>f. f\<lparr>InvocationCount2XX := InvocationCount2XX f + parsedValue\<rparr>) fs
         | (parsedValue, Some err) \<Rightarrow> Inr fs)
      else Inr fs)"

definition addInvocationCountNon2XX ::
  "(string \<Rightarrow> 'f \<times> error option) \<Rightarrow> nat \<Rightarrow> string \<Rightarrow> 'f Sample
     \<Rightarrow> ('f::{zero,plus}, 'z) Function_scheme list \<Rightarrow> panic + ('f, 'z) Function_scheme list" where
  "addInvocationCountNon2XX ParseFloat i name v fs =
     (if FunctionName (Metric v) = name then
        (if FunctionName (Metric v) = name then
           (case parseMetricValue ParseFloat (snd (Value v)) of
              (parsedValue, None) \<Rightarrow>
                assignAt i (\<lambda>f. f\<lparr>InvocationCountNon2XX :=
                                    InvocationCountNon2XX f + parsedValue\<rparr>) fs
            | (parsedValue, Some err) \<Rightarrow> Inr fs)
         else Inr fs)
      else Inr fs)"

definition addAverageResponseTime ::
  "(string \<Rightarrow> 'f \<times> error option) \<Rightarrow> nat \<Rightarrow> string \<Rightarrow> 'f Sample
     \<Rightarrow> ('f::{zero,plus}, 'z) Function_scheme list \<Rightarrow> panic + ('f, 'z) Function_scheme list" where
  "addAverageResponseTime ParseFloat i name v fs =
     (if FunctionName (Metric v) = name then
        (if FunctionName (Metric v) = name then
           (case parseMetricValue ParseFloat (snd (Value v)) of
              (parsedValue, None) \<Rightarrow>
                assignAt i (\<lambda>f. f\<lparr>AverageResponseTime :=
                                    AverageResponseTime f + parsedValue\<rparr>) fs
            | (parsedValue, Some err) \<Rightarrow> Inr fs)
         else Inr fs)
      else Inr fs)"

text \<open>
  The expression \<^verbatim>\<open>p.Data.Result\<close> for a pointer \<open>p\<close> of type
  \<^verbatim>\<open>*VectorQueryResponse\<close>: \<open>None\<close> is the \<^verbatim>\<open>nil\<close> pointer, which the source
  dereferences without a check.
\<close>

definition dataResult :: "'f VectorQueryResponse option \<Rightarrow> panic + 'f Sample list" where
  "dataResult p = (case p of None \<Rightarrow> Inl NilDereference | Some x \<Rightarrow> Inr (Result (Data x)))"

text \<open>
  The body of the second loop, \<^verbatim>\<open>for i, function := range *functions\<close>: \<^verbatim>\<open>function\<close>
  is the copy of element \<open>i\<close> taken when the iteration starts, and the four inner loops
  run one after the other on the slice, each reading the samples through its pointer
  when it starts.
\<close>

definition mixInAt ::
  "(string \<Rightarrow> 'f \<times> error option)
     \<Rightarrow> 'f VectorQueryResponse option \<Rightarrow> 'f VectorQueryResponse option
     \<Rightarrow> 'f VectorQueryResponse option \<Rightarrow> 'f VectorQueryResponse option
     \<Rightarrow> nat \<Rightarrow> ('f::{zero,plus}, 'z) Function_scheme list
     \<Rightarrow> panic + ('f, 'z) Function_scheme list" where
  "mixInAt ParseFloat invocationCountMetrics invocationCount2XXMetrics
       invocationCountNon2XXMetrics averageResponseTimeMetrics i fs =
     (case index fs i of
        Inl p \<Rightarrow> Inl p
      | Inr function \<Rightarrow>
     (case dataResult invocationCountMetrics of
        Inl p \<Rightarrow> Inl p
      | Inr vs1 \<Rightarrow>
     (case rangeLoop (addInvocationCount ParseFloat i (Name function)) vs1 fs of
        Inl p \<Rightarrow> Inl p
      | Inr fs1 \<Rightarrow>
     (case dataResult invocationCount2XXMetrics of
        Inl p \<Rightarrow> Inl p
      | Inr vs2 \<Rightarrow>
     (case rangeLoop (addInvocationCount2XX ParseFloat i (Name function)) vs2 fs1 of
        Inl p \<Rightarrow> Inl p
      | Inr fs2 \<Rightarrow>
     (case dataResult invocationCountNon2XXMetrics of
        Inl p \<Rightarrow> Inl p
      | Inr vs3 \<Rightarrow>
     (case rangeLoop (addInvocationCountNon2XX ParseFloat i (Name function)) vs3 fs2 of
        Inl p \<Rightarrow> Inl p
      | Inr fs3 \<Rightarrow>
     (case dataResult averageResponseTimeMetrics of
        Inl p \<Rightarrow> Inl p
      | Inr vs4 \<Rightarrow>
          rangeLoop (addAverageResponseTime ParseFloat i (Name function)) vs4 fs3))))))))"

text \<open>
  \<^verbatim>\<open>mixIn\<close> takes a pointer to the slice: \<open>None\<close> is the \<^verbatim>\<open>nil\<close> pointer, for which
  the function returns at once, and \<open>Some fs\<close> a pointer to the slice \<open>fs\<close> (the
  \<^verbatim>\<open>nil\<close> slice is \<open>[]\<close>). The result \<open>Inr t\<close> is the pointer's target after the call,
  and \<open>Inl p\<close> a panic. The four responses are pointers too, \<open>None\<close> for \<^verbatim>\<open>nil\<close>;
  the source tests none of them. They are only read: the source has no assignment
  through these pointers, so they are arguments and not part of the result.
\<close>

definition mixIn ::
  "(string \<Rightarrow> 'f \<times> error option) \<Rightarrow> ('f::{zero,plus}, 'z) Function_scheme list option
     \<Rightarrow> 'f VectorQueryResponse option \<Rightarrow> 'f VectorQueryResponse option
     \<Rightarrow> 'f VectorQueryResponse option \<Rightarrow> 'f VectorQueryResponse option
     \<Rightarrow> panic + ('f, 'z) Function_scheme list option" where
  "mixIn ParseFloat functions invocationCountMetrics invocationCount2XXMetrics
       invocationCountNon2XXMetrics averageResponseTimeMetrics =
     (case functions of
        None \<Rightarrow> Inr None
      | Some fs \<Rightarrow>
          (case rangeLoop resetAt [0..<length fs] fs of
             Inl p \<Rightarrow> Inl p
           | Inr fs' \<Rightarrow>
               (case rangeLoop (mixInAt ParseFloat invocationCountMetrics
                                  invocationCount2XXMetrics invocationCountNon2XXMetrics
                                  averageResponseTimeMetrics)
                       [0..<length fs'] fs' of
                  Inl p \<Rightarrow> Inl p
                | Inr fs'' \<Rightarrow> Inr (Some fs''))))"


section \<open>Reading the merge\<close>

text \<open>
  The values a response contributes to the function called \<open>name\<close>: the parsed values of
  the samples whose \<open>function_name\<close> is \<open>name\<close> and whose value parses without error, in
  the order of the response.
\<close>

definition parsedValues ::
  "(string \<Rightarrow> 'f \<times> error option) \<Rightarrow> string \<Rightarrow> 'f Sample list \<Rightarrow> ('f::zero) list" where
  "parsedValues ParseFloat name vs =
     map (\<lambda>v. fst (parseMetricValue ParseFloat (snd (Value v))))
       (filter (\<lambda>v. FunctionName (Metric v) = name
                  \<and> snd (parseMetricValue ParseFloat (snd (Value v))) = None) vs)"

text \<open>
  What the second loop does to one record, and what both loops do to it: each field is
  the left-to-right sum, from the field's value (from \<open>0\<close> after the reset), of the
  values its response contributes.
\<close>

definition accumulated ::
  "(string \<Rightarrow> 'f \<times> error option)
     \<Rightarrow> 'f VectorQueryResponse \<Rightarrow> 'f VectorQueryResponse
     \<Rightarrow> 'f VectorQueryResponse \<Rightarrow> 'f VectorQueryResponse
     \<Rightarrow> ('f::{zero,plus}, 'z) Function_scheme \<Rightarrow> ('f, 'z) Function_scheme" where
  "accumulated ParseFloat a b c d f =
     f\<lparr>InvocationCount :=
         foldl (+) (InvocationCount f) (parsedValues ParseFloat (Name f) (Result (Data a))),
       InvocationCount2XX :=
         foldl (+) (InvocationCount2XX f) (parsedValues ParseFloat (Name f) (Result (Data b))),
       InvocationCountNon2XX :=
         foldl (+) (InvocationCountNon2XX f) (parsedValues ParseFloat (Name f) (Result (Data c))),
       AverageResponseTime :=
         foldl (+) (AverageResponseTime f) (parsedValues ParseFloat (Name f) (Result (Data d)))\<rparr>"

definition zeroed :: "('f::zero, 'z) Function_scheme \<Rightarrow> ('f, 'z) Function_scheme" where
  "zeroed f = f\<lparr>InvocationCount := 0, InvocationCount2XX := 0,
               InvocationCountNon2XX := 0, AverageResponseTime := 0\<rparr>"

definition merged ::
  "(string \<Rightarrow> 'f \<times> error option)
     \<Rightarrow> 'f VectorQueryResponse \<Rightarrow> 'f VectorQueryResponse
     \<Rightarrow> 'f VectorQueryResponse \<Rightarrow> 'f VectorQueryResponse
     \<Rightarrow> ('f::{zero,plus}, 'z) Function_scheme \<Rightarrow> ('f, 'z) Function_scheme" where
  "merged ParseFloat a b c d f =
     f\<lparr>InvocationCount := foldl (+) 0 (parsedValues ParseFloat (Name f) (Result (Data a))),
       InvocationCount2XX := foldl (+) 0 (parsedValues ParseFloat (Name f) (Result (Data b))),
       InvocationCountNon2XX := foldl (+) 0 (parsedValues ParseFloat (Name f) (Result (Data c))),
       AverageResponseTime := foldl (+) 0 (parsedValues ParseFloat (Name f) (Result (Data d)))\<rparr>"

text \<open>A response with the samples \<open>vs\<close>, and a response without its unparsable samples.\<close>

definition response :: "'f Sample list \<Rightarrow> 'f VectorQueryResponse" where
  "response vs = \<lparr>Data = \<lparr>Result = vs\<rparr>\<rparr>"

definition sample :: "string \<Rightarrow> 'f any \<Rightarrow> 'f Sample" where
  "sample name x = \<lparr>Metric = \<lparr>FunctionName = name\<rparr>, Value = (INil, x)\<rparr>"

definition parses :: "(string \<Rightarrow> 'f \<times> error option) \<Rightarrow> ('f::zero) Sample \<Rightarrow> bool" where
  "parses ParseFloat v = (snd (parseMetricValue ParseFloat (snd (Value v))) = None)"

definition dropUnparsed ::
  "(string \<Rightarrow> 'f \<times> error option) \<Rightarrow> ('f::zero) VectorQueryResponse \<Rightarrow> 'f VectorQueryResponse" where
  "dropUnparsed ParseFloat x = response (filter (parses ParseFloat) (Result (Data x)))"

definition isString :: "'f any \<Rightarrow> bool" where
  "isString x = (case x of IString s \<Rightarrow> True | _ \<Rightarrow> False)"

text \<open>
  An instance of the parameter \<open>ParseFloat\<close> for the examples: it accepts the non-empty
  strings of decimal digits, with their value, and rejects every other string with
  value \<open>0\<close> and an error.
\<close>

definition digitOf :: "char \<Rightarrow> nat option" where
  "digitOf ch = map_of [(CHR ''0'', 0), (CHR ''1'', 1), (CHR ''2'', 2), (CHR ''3'', 3),
     (CHR ''4'', 4), (CHR ''5'', 5), (CHR ''6'', 6), (CHR ''7'', 7), (CHR ''8'', 8),
     (CHR ''9'', 9)] ch"

fun digitsValue :: "nat \<Rightarrow> string \<Rightarrow> nat option" where
  "digitsValue n [] = Some n"
| "digitsValue n (ch # s) =
     (case digitOf ch of None \<Rightarrow> None | Some k \<Rightarrow> digitsValue (10 * n + k) s)"

definition parseDigits :: "string \<Rightarrow> real \<times> error option" where
  "parseDigits s =
     (if s = [] then (0, Some ''invalid syntax'')
      else (case digitsValue 0 s of
              None \<Rightarrow> (0, Some ''invalid syntax'')
            | Some n \<Rightarrow> (real n, None)))"


section \<open>Decorator\<close>

text \<open>
  The response writer \<^verbatim>\<open>w\<close> is an interface: the model records the calls the decorator
  makes on it, in order.
\<close>

datatype call =
    HeaderSet string string
  | WriteHeader int
  | Write string

definition StatusOK :: int where
  "StatusOK = 200"

definition StatusInternalServerError :: int where
  "StatusInternalServerError = 500"

text \<open>
  \<^verbatim>\<open>httptest.ResponseRecorder\<close>: the status code, which a new recorder initialises to
  200, and the bytes the wrapped handler wrote. \<^verbatim>\<open>recorder.Result()\<close> returns a
  response whose body is never \<^verbatim>\<open>nil\<close>: it reads the recorded bytes.
\<close>

record ResponseRecorder =
  Code :: int
  Buffer :: string

record Response =
  StatusCode :: int
  Body :: "string option"

definition NewRecorder :: ResponseRecorder where
  "NewRecorder = \<lparr>Code = 200, Buffer = []\<rparr>"

definition recorderResult :: "ResponseRecorder \<Rightarrow> Response" where
  "recorderResult recorder = \<lparr>StatusCode = Code recorder, Body = Some (Buffer recorder)\<rparr>"

text \<open>
  The library functions and the fetcher's method are parameters: \<^verbatim>\<open>strconv.ParseFloat\<close>,
  \<^verbatim>\<open>url.QueryEscape\<close>, \<^verbatim>\<open>json.Unmarshal\<close> into a slice of functions,
  \<^verbatim>\<open>json.Marshal\<close> of that slice, and \<^verbatim>\<open>Fetch\<close> of the interface
  \<^verbatim>\<open>PrometheusQueryFetcher\<close>, which is declared outside the file. \<open>Fetch\<close> acts on
  the fetcher \<open>'q\<close> and returns the error (\<open>Inl\<close>) or the response.
\<close>

record ('f, 'z, 'q) library =
  ParseFloat :: "string \<Rightarrow> 'f \<times> error option"
  QueryEscape :: "string \<Rightarrow> string"
  Unmarshal :: "string \<Rightarrow> error + ('f, 'z) Function_scheme list"
  Marshal :: "('f, 'z) Function_scheme list \<Rightarrow> error + string"
  Fetch :: "'q \<Rightarrow> string \<Rightarrow> (error + 'f VectorQueryResponse) \<times> 'q"

text \<open>
  What one request leaves behind: the calls on \<^verbatim>\<open>w\<close>, the fetches issued (the
  expression and the error returned, \<open>None\<close> for \<^verbatim>\<open>nil\<close>), the fetcher after them, and
  the panic if the request ended in one. Log lines are not modelled.
\<close>

record 'q run =
  calls :: "call list"
  fetched :: "(string \<times> error option) list"
  prometheusQuery :: 'q
  panicked :: "panic option"

definition fetch ::
  "('f, 'z, 'q) library \<Rightarrow> string \<Rightarrow> 'q run \<Rightarrow> (error + 'f VectorQueryResponse) \<times> 'q run" where
  "fetch lib expr st =
     (case Fetch lib (prometheusQuery st) expr of
        (res, q') \<Rightarrow>
          (res, st\<lparr>fetched := fetched st @ [(expr, case res of Inl e \<Rightarrow> Some e | Inr x \<Rightarrow> None)],
                   prometheusQuery := q'\<rparr>))"

text \<open>\<^verbatim>\<open>fmt.Sprintf\<close> with the verb \<^verbatim>\<open>%d\<close>: the decimal digits of an integer.\<close>

fun digits :: "nat \<Rightarrow> string" where
  "digits n =
     (if n < 10 then [''0123456789'' ! n]
      else digits (n div 10) @ [''0123456789'' ! (n mod 10)])"

definition fmt_d :: "int \<Rightarrow> string" where
  "fmt_d k = (if k < 0 then CHR ''-'' # digits (nat (- k)) else digits (nat k))"

definition writeResponse :: "call list \<Rightarrow> string \<Rightarrow> call list" where
  "writeResponse w body =
     w @ [HeaderSet ''Content-Type'' ''application/json'', WriteHeader StatusOK, Write body]"

text \<open>The four query expressions, before escaping.\<close>

definition invocationCountExpr :: string where
  \<open>invocationCountExpr =
     ''sum(gateway_function_invocation_total{function_name=~".*", code=~".*"}) by (function_name, code)''\<close>

definition invocationCount2XXExpr :: string where
  \<open>invocationCount2XXExpr =
     ''sum(gateway_function_invocation_total {function_name=~".*", code=~"2.*"}) by (function_name)''\<close>

definition invocationCountNon2XXExpr :: string where
  \<open>invocationCountNon2XXExpr =
     ''sum(gateway_function_invocation_total {function_name=~".*", code!~"2.*"}) by (function_name)''\<close>

definition averageResponseTimeExpr :: string where
  \<open>averageResponseTimeExpr =
     ''avg(gateway_functions_seconds_sum/gateway_functions_seconds_count {function_name=~".*"}) by (function_name)''\<close>

text \<open>
  The function \<^verbatim>\<open>AddMetricsHandler\<close> returns, applied to the request \<open>r\<close>. The wrapped
  handler writes to a new recorder. The decorator passes \<^verbatim>\<open>&functions\<close> to
  \<^verbatim>\<open>mixIn\<close>, a pointer that is never \<^verbatim>\<open>nil\<close>, with the four responses the
  fetches returned, and marshals the variable afterwards.
\<close>

definition AddMetricsHandler ::
  "('f::{zero,plus}, 'z, 'q) library \<Rightarrow> ('r \<Rightarrow> ResponseRecorder \<Rightarrow> ResponseRecorder) \<Rightarrow> 'q
     \<Rightarrow> 'r \<Rightarrow> 'q run" where
  "AddMetricsHandler lib handler fetcher r =
     (let w = \<lparr>calls = [], fetched = [], prometheusQuery = fetcher, panicked = None\<rparr>;
          recorder = handler r NewRecorder;
          upstreamCall = recorderResult recorder
      in case Body upstreamCall of
           None \<Rightarrow> w
         | Some upstreamBody \<Rightarrow>
      if Code recorder \<noteq> StatusOK then
        w\<lparr>calls := calls w @
            [HeaderSet ''Content-Type'' ''text/plain'',
             WriteHeader StatusInternalServerError,
             Write (''Error pulling metrics from provider/backend. Status code: ''
                      @ fmt_d (Code recorder))]\<rparr>
      else
      (case Unmarshal lib upstreamBody of
         Inl err \<Rightarrow>
           w\<lparr>calls := calls w @
               [HeaderSet ''Content-Type'' ''text/plain'',
                WriteHeader StatusInternalServerError,
                Write ''Error parsing metrics from upstream provider/backend.'']\<rparr>
       | Inr functions \<Rightarrow>
      (case fetch lib (QueryEscape lib invocationCountExpr) w of
         (Inl fetchErr, w1) \<Rightarrow> w1\<lparr>calls := writeResponse (calls w1) upstreamBody\<rparr>
       | (Inr results, w1) \<Rightarrow>
      (case fetch lib (QueryEscape lib invocationCount2XXExpr) w1 of
         (Inl fetchErr, w2) \<Rightarrow> w2\<lparr>calls := writeResponse (calls w2) upstreamBody\<rparr>
       | (Inr invocationCount2XXResults, w2) \<Rightarrow>
      (case fetch lib (QueryEscape lib invocationCountNon2XXExpr) w2 of
         (Inl fetchErr, w3) \<Rightarrow> w3\<lparr>calls := writeResponse (calls w3) upstreamBody\<rparr>
       | (Inr invocationCountNon2XXResults, w3) \<Rightarrow>
      (case fetch lib (QueryEscape lib averageResponseTimeExpr) w3 of
         (Inl fetchErr, w4) \<Rightarrow> w4\<lparr>calls := writeResponse (calls w4) upstreamBody\<rparr>
       | (Inr averageResponseTimeResults, w4) \<Rightarrow>
      (case mixIn (ParseFloat lib) (Some functions) (Some results)
              (Some invocationCount2XXResults) (Some invocationCountNon2XXResults)
              (Some averageResponseTimeResults) of
         Inl p \<Rightarrow> w4\<lparr>panicked := Some p\<rparr>
       | Inr target \<Rightarrow>
      (case Marshal lib (case target of None \<Rightarrow> functions | Some fs \<Rightarrow> fs) of
         Inl marshalErr \<Rightarrow> w4
       | Inr bytesOut \<Rightarrow>
           w4\<lparr>calls := calls w4 @
               [HeaderSet ''Content-Type'' ''application/json'',
                WriteHeader StatusOK,
                Write bytesOut]\<rparr>))))))))"


section \<open>Example inputs\<close>

text \<open>
  The inputs of the examples. \<open>fn name x\<close> is a function record whose four derived fields
  all hold \<open>x\<close>. \<open>okHandler\<close> is a wrapped handler that writes a list of one function
  and leaves the status at 200; \<open>unavailableHandler\<close> answers 503. In the library
  \<open>testLib k\<close> the fetcher counts its calls and the call number \<open>k\<close> (from 0) fails, every
  other call returning a response without samples; \<open>QueryEscape\<close> leaves the
  expression as it is, and \<open>Unmarshal\<close> reads the one body \<open>okHandler\<close> writes.
\<close>

definition fn :: "string \<Rightarrow> real \<Rightarrow> real Function" where
  "fn name x = \<lparr>Name = name, InvocationCount = x, InvocationCount2XX = x,
                InvocationCountNon2XX = x, AverageResponseTime = x\<rparr>"

definition upstreamList :: string where
  \<open>upstreamList = ''[{"name":"fn1"}]''\<close>


definition unavailableHandler :: "unit \<Rightarrow> ResponseRecorder \<Rightarrow> ResponseRecorder" where
  "unavailableHandler r recorder =
     recorder\<lparr>Code := 503, Buffer := Buffer recorder @ ''unavailable''\<rparr>"

definition testLib :: "nat \<Rightarrow> (real, unit, nat) library" where
  "testLib k =
     \<lparr>ParseFloat = parseDigits,
      QueryEscape = (\<lambda>expr. expr),
      Unmarshal = (\<lambda>body. if body = upstreamList then Inr [fn ''fn1'' 0]
                            else Inl ''invalid character''),
      Marshal = (\<lambda>fs. Inr (concat (map Name fs))),
      Fetch = (\<lambda>q expr. (if q = k then Inl ''connection refused'' else Inr (response []),
                           Suc q))\<rparr>"


section \<open>The loops, element by element\<close>

lemma rangeLoop_append:
  "rangeLoop body (xs @ ys) s =
     (case rangeLoop body xs s of Inl p \<Rightarrow> Inl p | Inr s' \<Rightarrow> rangeLoop body ys s')"
  by (induction xs arbitrary: s) (auto split: sum.splits)

lemma index_loop:
  assumes step: "\<And>i fs. i < length fs \<Longrightarrow> step i fs = Inr (fs[i := g (fs ! i)])"
  shows "n \<le> length fs \<Longrightarrow> rangeLoop step [0..<n] fs = Inr (map g (take n fs) @ drop n fs)"
proof (induction n)
  case 0
  then show ?case by simp
next
  case (Suc n)
  then have n: "n < length fs" by simp
  let ?mid = "map g (take n fs) @ drop n fs"
  have at: "?mid ! n = fs ! n" using n by (simp add: nth_append)
  have "rangeLoop step [0..<Suc n] fs = step n ?mid"
    using Suc by (simp add: rangeLoop_append split: sum.splits)
  also have "\<dots> = Inr (?mid[n := g (fs ! n)])" using step [of n ?mid] n at by simp
  also have "?mid[n := g (fs ! n)] = map g (take (Suc n) fs) @ drop (Suc n) fs"
    using n by (simp add: list_update_append take_Suc_conv_app_nth Cons_nth_drop_Suc [symmetric])
  finally show ?case .
qed

lemma index_loop_all:
  assumes "\<And>i fs. i < length fs \<Longrightarrow> step i fs = Inr (fs[i := g (fs ! i)])"
  shows "rangeLoop step [0..<length fs] fs = Inr (map g fs)"
  using index_loop [of step g "length fs" fs, OF assms] by simp

lemma sample_loop:
  assumes step: "\<And>v fs. step v fs =
      (if ok v then assignAt i (\<lambda>f. put (get f + val v) f) fs else Inr fs)"
    and get_put: "\<And>x f. get (put x f) = x"
    and put_put: "\<And>x y f. put x (put y f) = put x f"
    and put_get: "\<And>f. put (get f) f = f"
  shows "i < length fs \<Longrightarrow>
    rangeLoop step vs fs =
      Inr (fs[i := put (foldl (+) (get (fs ! i)) (map val (filter ok vs))) (fs ! i)])"
proof (induction vs arbitrary: fs)
  case Nil
  then show ?case by (simp add: put_get)
next
  case (Cons v vs)
  show ?case
  proof (cases "ok v")
    case True
    let ?fs = "fs[i := put (get (fs ! i) + val v) (fs ! i)]"
    have "rangeLoop step (v # vs) fs = rangeLoop step vs ?fs"
      using True Cons.prems by (simp add: step assignAt_def)
    also have "\<dots> =
        Inr (?fs[i := put (foldl (+) (get (?fs ! i)) (map val (filter ok vs))) (?fs ! i)])"
      using Cons.prems by (intro Cons.IH) simp
    also have "\<dots> =
        Inr (fs[i := put (foldl (+) (get (fs ! i)) (map val (filter ok (v # vs)))) (fs ! i)])"
      using Cons.prems True by (simp add: get_put put_put)
    finally show ?thesis .
  next
    case False
    then have "rangeLoop step (v # vs) fs = rangeLoop step vs fs"
      by (simp add: step)
    then show ?thesis
      using Cons.prems False by (simp add: Cons.IH)
  qed
qed

lemma parseMetricValue_split:
  "(case parseMetricValue pf x of (p, None) \<Rightarrow> A p | (p, Some e) \<Rightarrow> B) =
     (if snd (parseMetricValue pf x) = None then A (fst (parseMetricValue pf x)) else B)"
  by (cases "parseMetricValue pf x") (auto split: option.splits)

lemma loop_addInvocationCount:
  "i < length fs \<Longrightarrow>
   rangeLoop (addInvocationCount pf i name) vs fs =
     Inr (fs[i := (fs ! i)\<lparr>InvocationCount :=
               foldl (+) (InvocationCount (fs ! i)) (parsedValues pf name vs)\<rparr>])"
  unfolding parsedValues_def
  by (rule sample_loop [where put = "\<lambda>x f. f\<lparr>InvocationCount := x\<rparr>"])
     (simp_all add: addInvocationCount_def parseMetricValue_split)

lemma loop_addInvocationCount2XX:
  "i < length fs \<Longrightarrow>
   rangeLoop (addInvocationCount2XX pf i name) vs fs =
     Inr (fs[i := (fs ! i)\<lparr>InvocationCount2XX :=
               foldl (+) (InvocationCount2XX (fs ! i)) (parsedValues pf name vs)\<rparr>])"
  unfolding parsedValues_def
  by (rule sample_loop [where put = "\<lambda>x f. f\<lparr>InvocationCount2XX := x\<rparr>"])
     (simp_all add: addInvocationCount2XX_def parseMetricValue_split)

lemma loop_addInvocationCountNon2XX:
  "i < length fs \<Longrightarrow>
   rangeLoop (addInvocationCountNon2XX pf i name) vs fs =
     Inr (fs[i := (fs ! i)\<lparr>InvocationCountNon2XX :=
               foldl (+) (InvocationCountNon2XX (fs ! i)) (parsedValues pf name vs)\<rparr>])"
  unfolding parsedValues_def
  by (rule sample_loop [where put = "\<lambda>x f. f\<lparr>InvocationCountNon2XX := x\<rparr>"])
     (simp_all add: addInvocationCountNon2XX_def parseMetricValue_split)

lemma loop_addAverageResponseTime:
  "i < length fs \<Longrightarrow>
   rangeLoop (addAverageResponseTime pf i name) vs fs =
     Inr (fs[i := (fs ! i)\<lparr>AverageResponseTime :=
               foldl (+) (AverageResponseTime (fs ! i)) (parsedValues pf name vs)\<rparr>])"
  unfolding parsedValues_def
  by (rule sample_loop [where put = "\<lambda>x f. f\<lparr>AverageResponseTime := x\<rparr>"])
     (simp_all add: addAverageResponseTime_def parseMetricValue_split)

lemma mixInAt_eq:
  "i < length fs \<Longrightarrow>
   mixInAt pf (Some a) (Some b) (Some c) (Some d) i fs =
     Inr (fs[i := accumulated pf a b c d (fs ! i)])"
  by (simp add: mixInAt_def index_def dataResult_def accumulated_def loop_addInvocationCount
      loop_addInvocationCount2XX loop_addInvocationCountNon2XX loop_addAverageResponseTime)

lemma resetAt_eq: "i < length fs \<Longrightarrow> resetAt i fs = Inr (fs[i := zeroed (fs ! i)])"
  by (simp add: resetAt_def assignAt_def zeroed_def)

lemma accumulated_zeroed: "accumulated pf a b c d (zeroed f) = merged pf a b c d f"
  by (simp add: accumulated_def zeroed_def merged_def)

lemma mixIn_Some:
  "mixIn pf (Some fs) (Some a) (Some b) (Some c) (Some d) =
     Inr (Some (map (merged pf a b c d) fs))"
proof -
  have r: "rangeLoop resetAt [0..<length fs] fs = Inr (map zeroed fs)"
    by (rule index_loop_all) (rule resetAt_eq)
  have m: "rangeLoop (mixInAt pf (Some a) (Some b) (Some c) (Some d))
             [0..<length (map zeroed fs)] (map zeroed fs)
             = Inr (map (accumulated pf a b c d) (map zeroed fs))"
    by (rule index_loop_all) (rule mixInAt_eq)
  show ?thesis
    by (simp add: mixIn_def r m accumulated_zeroed del: length_map)
qed

lemma mixIn_None: "mixIn pf None a b c d = Inr None"
  by (simp add: mixIn_def)


text \<open>
  A \<^verbatim>\<open>nil\<close> response pointer with a list that is not empty: the second loop reaches
  the dereference in its first iteration.
\<close>

lemma mixInAt_nil_response:
  assumes "i < length fs" and "a = None \<or> b = None \<or> c = None \<or> d = None"
  shows "mixInAt pf a b c d i fs = Inl NilDereference"
  using assms
  by (auto simp: mixInAt_def index_def dataResult_def loop_addInvocationCount
      loop_addInvocationCount2XX loop_addInvocationCountNon2XX split: option.splits)

lemma mixIn_nil_response:
  assumes "fs \<noteq> []" and "a = None \<or> b = None \<or> c = None \<or> d = None"
  shows "mixIn pf (Some fs) a b c d = Inl NilDereference"
proof -
  have r: "rangeLoop resetAt [0..<length fs] fs = Inr (map zeroed fs)"
    by (rule index_loop_all) (rule resetAt_eq)
  have "mixInAt pf a b c d 0 (map zeroed fs) = Inl NilDereference"
    using assms by (intro mixInAt_nil_response) simp_all
  then have "rangeLoop (mixInAt pf a b c d) (0 # [1..<length fs]) (map zeroed fs)
      = Inl NilDereference"
    by simp
  moreover have "[0..<length (map zeroed fs)] = 0 # [1..<length fs]"
    using assms(1) by (simp add: upt_rec)
  ultimately show ?thesis
    by (simp add: mixIn_def r del: length_map)
qed

lemma Name_merged: "Name (merged pf a b c d f) = Name f"
  by (simp add: merged_def)

lemma more_merged: "Function.more (merged pf a b c d f) = Function.more f"
  by (simp add: merged_def)

lemma merged_merged: "merged pf a b c d (merged pf a b c d f) = merged pf a b c d f"
  by (simp add: merged_def)

lemma parsedValues_append:
  "parsedValues pf name (xs @ ys) = parsedValues pf name xs @ parsedValues pf name ys"
  by (simp add: parsedValues_def)

lemma parsedValues_dropUnparsed:
  "parsedValues pf name (Result (Data (dropUnparsed pf x))) = parsedValues pf name (Result (Data x))"
proof -
  have "filter (\<lambda>v. FunctionName (Metric v) = name
                  \<and> snd (parseMetricValue pf (snd (Value v))) = None)
          (filter (parses pf) vs)
        = filter (\<lambda>v. FunctionName (Metric v) = name
                  \<and> snd (parseMetricValue pf (snd (Value v))) = None) vs" for vs
    by (induction vs) (simp_all add: parses_def)
  then show ?thesis
    by (simp add: parsedValues_def dropUnparsed_def response_def)
qed

lemma merged_dropUnparsed:
  "merged pf (dropUnparsed pf a) (dropUnparsed pf b) (dropUnparsed pf c) (dropUnparsed pf d) f
     = merged pf a b c d f"
  by (simp add: merged_def parsedValues_dropUnparsed)

lemma parseMetricValue_not_string: "\<not> isString x \<Longrightarrow> parseMetricValue pf x = (0, None)"
  by (cases x) (simp_all add: parseMetricValue_def isString_def)

declare digits.simps [simp del]

text \<open>
  The digits \<^verbatim>\<open>%d\<close> prints are the number: read back, they give it again.
\<close>

lemma digitOf_digit: "k < 10 \<Longrightarrow> digitOf (''0123456789'' ! k) = Some k"
proof -
  assume "k < 10"
  then have "k \<in> {0, 1, 2, 3, 4, 5, 6, 7, 8, 9}" by auto
  then show ?thesis by (auto simp: digitOf_def)
qed

lemma digitsValue_snoc:
  "digitsValue n (s @ [ch]) =
     (case digitsValue n s of
        None \<Rightarrow> None
      | Some m \<Rightarrow> (case digitOf ch of None \<Rightarrow> None | Some k \<Rightarrow> Some (10 * m + k)))"
  by (induction s arbitrary: n) (simp_all split: option.splits)

lemma digitsValue_digits: "digitsValue 0 (digits n) = Some n"
proof (induction n rule: digits.induct)
  case (1 n)
  show ?case
  proof (cases "n < 10")
    case True
    then show ?thesis by (simp add: digits.simps [of n] digitOf_digit)
  next
    case False
    then show ?thesis
      using "1.IH" by (simp add: digits.simps [of n] digitsValue_snoc digitOf_digit)
  qed
qed

lemma digits_nonempty: "digits n \<noteq> []"
  by (simp add: digits.simps [of n])

lemma parseDigits_fmt_d: "0 \<le> k \<Longrightarrow> parseDigits (fmt_d k) = (real_of_int k, None)"
  by (simp add: parseDigits_def fmt_d_def digitsValue_digits digits_nonempty)

lemma parseDigits_examples:
  "parseDigits ''10'' = (10, None)"
  "parseDigits ''5'' = (5, None)"
  "parseDigits ''8'' = (8, None)"
  "parseDigits ''3'' = (3, None)"
  "parseDigits ''NaN?'' = (0, Some ''invalid syntax'')"
  by (simp_all add: parseDigits_def digitOf_def)


section \<open>The metric value parser on values that are not strings\<close>

text \<open>
  Claim C2 says that the parser returns an error for every value that is not a string.
  The type switch of \<^verbatim>\<open>parseMetricValue\<close> has no branch for such a value, so the
  named results keep their zero values: for the number 10 the error is \<^verbatim>\<open>nil\<close>.
\<close>

theorem parseMetricValue_number_no_error:
  "\<not> isString (IFloat64 (10::real)) \<and> snd (parseMetricValue parseDigits (IFloat64 10)) = None"
  by (simp add: isString_def parseMetricValue_def)

text \<open>
  Claim C2, amended: for every value that is not a string the parser returns the value 0
  and no error, so the caller, here the body of the first inner loop on a sample with
  the name of the function, treats the sample as the value 0 and adds it to the field.
\<close>

theorem parseMetricValue_nonstring:
  assumes "\<not> isString (snd (Value v))"
  shows "parseMetricValue pf (snd (Value v)) = (0, None)
    \<and> (FunctionName (Metric v) = name \<and> i < length fs \<longrightarrow>
         addInvocationCount pf i name v fs =
           Inr (fs[i := (fs ! i)\<lparr>InvocationCount := InvocationCount (fs ! i) + 0\<rparr>]))"
  using assms
  by (simp add: parseMetricValue_not_string addInvocationCount_def assignAt_def)

theorem parseMetricValue_nonstring_witness:
  "\<not> isString (snd (Value (sample ''fn1'' (IBool True))))
   \<and> parseMetricValue parseDigits (snd (Value (sample ''fn1'' (IBool True)))) = (0, None)
   \<and> addInvocationCount parseDigits 0 ''fn1'' (sample ''fn1'' (IBool True)) [fn ''fn1'' 7]
       = Inr [(fn ''fn1'' 7)\<lparr>InvocationCount := 7\<rparr>]"
  using parseMetricValue_nonstring [of "sample ''fn1'' (IBool True)" parseDigits "''fn1''" 0
      "[fn ''fn1'' 7]"]
  by (simp add: isString_def sample_def fn_def)


section \<open>The merge\<close>

text \<open>
  Claim C3: the merge is idempotent. For every pointer to a function list and every four
  responses, the merge returns, and a second merge with the same responses leaves the
  list as the first one left it.
\<close>

theorem mixIn_idempotent:
  "\<exists>t. mixIn pf functions (Some a) (Some b) (Some c) (Some d) = Inr t
     \<and> mixIn pf t (Some a) (Some b) (Some c) (Some d) = Inr t"
proof (cases "functions")
  case None
  then show ?thesis by (simp add: mixIn_None)
next
  case (Some fs)
  then show ?thesis by (simp add: mixIn_Some merged_merged)
qed

theorem mixIn_idempotent_witness:
  "mixIn parseDigits (Some [fn ''fn1'' 7])
     (Some (response [sample ''fn1'' (IString ''10'')]))
     (Some (response [sample ''fn1'' (IString ''8'')]))
     (Some (response [])) (Some (response [sample ''fn1'' (IString ''3'')]))
   = Inr (Some [\<lparr>Name = ''fn1'', InvocationCount = 10, InvocationCount2XX = 8,
                  InvocationCountNon2XX = 0, AverageResponseTime = 3\<rparr>])
   \<and> mixIn parseDigits
       (Some [\<lparr>Name = ''fn1'', InvocationCount = 10, InvocationCount2XX = 8,
                InvocationCountNon2XX = 0, AverageResponseTime = 3\<rparr>])
       (Some (response [sample ''fn1'' (IString ''10'')]))
       (Some (response [sample ''fn1'' (IString ''8'')]))
       (Some (response [])) (Some (response [sample ''fn1'' (IString ''3'')]))
     = Inr (Some [\<lparr>Name = ''fn1'', InvocationCount = 10, InvocationCount2XX = 8,
                    InvocationCountNon2XX = 0, AverageResponseTime = 3\<rparr>])"
  using mixIn_idempotent [of parseDigits "Some [fn ''fn1'' 7]"
      "response [sample ''fn1'' (IString ''10'')]" "response [sample ''fn1'' (IString ''8'')]"
      "response []" "response [sample ''fn1'' (IString ''3'')]"]
  by (simp add: mixIn_Some merged_def parsedValues_def parseMetricValue_def
      parseDigits_examples sample_def response_def fn_def)

text \<open>
  Claim C4: for every function record of the list and each of the four responses, the
  field of the record that belongs to the response ends up as the sum, added from 0 in
  the order of the response, of the parsed values of all the samples whose
  \<open>function_name\<close> equals the record's name and whose value parses.
\<close>

theorem mixIn_sums_matching_samples:
  assumes "i < length fs"
  shows "\<exists>fs'. mixIn pf (Some fs) (Some a) (Some b) (Some c) (Some d) = Inr (Some fs')
    \<and> InvocationCount (fs' ! i) =
        foldl (+) 0 (parsedValues pf (Name (fs ! i)) (Result (Data a)))
    \<and> InvocationCount2XX (fs' ! i) =
        foldl (+) 0 (parsedValues pf (Name (fs ! i)) (Result (Data b)))
    \<and> InvocationCountNon2XX (fs' ! i) =
        foldl (+) 0 (parsedValues pf (Name (fs ! i)) (Result (Data c)))
    \<and> AverageResponseTime (fs' ! i) =
        foldl (+) 0 (parsedValues pf (Name (fs ! i)) (Result (Data d)))"
  using assms by (simp add: mixIn_Some merged_def)

theorem mixIn_sums_matching_samples_witness:
  "(0::nat) < length [fn ''fn1'' 7]
   \<and> (\<exists>fs'. mixIn parseDigits (Some [fn ''fn1'' 7])
          (Some (response [sample ''fn1'' (IString ''10''), sample ''fn2'' (IString ''3''),
                           sample ''fn1'' (IString ''5'')]))
          (Some (response [sample ''fn1'' (IString ''8''), sample ''fn1'' (IString ''5'')]))
          (Some (response [sample ''fn1'' (IString ''NaN?''), sample ''fn1'' (IString ''3'')]))
          (Some (response [])) = Inr (Some fs')
        \<and> InvocationCount (fs' ! 0) = 15
        \<and> InvocationCount2XX (fs' ! 0) = 13
        \<and> InvocationCountNon2XX (fs' ! 0) = 3
        \<and> AverageResponseTime (fs' ! 0) = 0)"
  using mixIn_sums_matching_samples [of 0 "[fn ''fn1'' 7]" parseDigits
      "response [sample ''fn1'' (IString ''10''), sample ''fn2'' (IString ''3''),
                 sample ''fn1'' (IString ''5'')]"
      "response [sample ''fn1'' (IString ''8''), sample ''fn1'' (IString ''5'')]"
      "response [sample ''fn1'' (IString ''NaN?''), sample ''fn1'' (IString ''3'')]"
      "response []"]
  by (simp add: parsedValues_def parseMetricValue_def parseDigits_examples sample_def
      response_def fn_def)

text \<open>
  Claim C5: a sample whose value fails to parse contributes nothing to any field and
  does not stop the merge. Wherever such a sample \<open>v\<close> stands in one of the four
  responses, the merge returns without a panic or an error, and in its result every
  field of every record is the sum of the values of all the other samples of its
  response that carry the record's name and parse: the samples before \<open>v\<close> and the
  samples after it in the response of \<open>v\<close>, and all the samples of the other three
  responses. Moreover, for every pointer to a function list, the merge has the result it
  has on the responses with all the unparsable samples taken out.
\<close>

theorem mixIn_skips_unparsed:
  assumes "snd (parseMetricValue pf (snd (Value v))) \<noteq> None"
  shows
    "mixIn pf (Some fs) (Some (response (xs @ v # ys))) (Some b) (Some c) (Some d) =
       Inr (Some (map (\<lambda>f. f\<lparr>
         InvocationCount := foldl (+) 0 (parsedValues pf (Name f) (xs @ ys)),
         InvocationCount2XX := foldl (+) 0 (parsedValues pf (Name f) (Result (Data b))),
         InvocationCountNon2XX := foldl (+) 0 (parsedValues pf (Name f) (Result (Data c))),
         AverageResponseTime := foldl (+) 0 (parsedValues pf (Name f) (Result (Data d)))\<rparr>) fs))
     \<and> mixIn pf (Some fs) (Some a) (Some (response (xs @ v # ys))) (Some c) (Some d) =
       Inr (Some (map (\<lambda>f. f\<lparr>
         InvocationCount := foldl (+) 0 (parsedValues pf (Name f) (Result (Data a))),
         InvocationCount2XX := foldl (+) 0 (parsedValues pf (Name f) (xs @ ys)),
         InvocationCountNon2XX := foldl (+) 0 (parsedValues pf (Name f) (Result (Data c))),
         AverageResponseTime := foldl (+) 0 (parsedValues pf (Name f) (Result (Data d)))\<rparr>) fs))
     \<and> mixIn pf (Some fs) (Some a) (Some b) (Some (response (xs @ v # ys))) (Some d) =
       Inr (Some (map (\<lambda>f. f\<lparr>
         InvocationCount := foldl (+) 0 (parsedValues pf (Name f) (Result (Data a))),
         InvocationCount2XX := foldl (+) 0 (parsedValues pf (Name f) (Result (Data b))),
         InvocationCountNon2XX := foldl (+) 0 (parsedValues pf (Name f) (xs @ ys)),
         AverageResponseTime := foldl (+) 0 (parsedValues pf (Name f) (Result (Data d)))\<rparr>) fs))
     \<and> mixIn pf (Some fs) (Some a) (Some b) (Some c) (Some (response (xs @ v # ys))) =
       Inr (Some (map (\<lambda>f. f\<lparr>
         InvocationCount := foldl (+) 0 (parsedValues pf (Name f) (Result (Data a))),
         InvocationCount2XX := foldl (+) 0 (parsedValues pf (Name f) (Result (Data b))),
         InvocationCountNon2XX := foldl (+) 0 (parsedValues pf (Name f) (Result (Data c))),
         AverageResponseTime := foldl (+) 0 (parsedValues pf (Name f) (xs @ ys))\<rparr>) fs))
     \<and> (\<exists>t. mixIn pf functions (Some a) (Some b) (Some c) (Some d) = Inr t
          \<and> mixIn pf functions (Some (dropUnparsed pf a)) (Some (dropUnparsed pf b))
              (Some (dropUnparsed pf c)) (Some (dropUnparsed pf d)) = Inr t)"
proof -
  have skip: "parsedValues pf name (xs @ v # ys) = parsedValues pf name (xs @ ys)" for name
    using assms by (simp add: parsedValues_def)
  have drop: "\<exists>t. mixIn pf functions (Some a) (Some b) (Some c) (Some d) = Inr t
      \<and> mixIn pf functions (Some (dropUnparsed pf a)) (Some (dropUnparsed pf b))
          (Some (dropUnparsed pf c)) (Some (dropUnparsed pf d)) = Inr t"
  proof (cases "functions")
    case None
    then show ?thesis by (simp add: mixIn_None)
  next
    case (Some gs)
    then show ?thesis by (simp add: mixIn_Some merged_dropUnparsed)
  qed
  have "mixIn pf (Some fs) (Some (response (xs @ v # ys))) (Some b) (Some c) (Some d) =
       Inr (Some (map (\<lambda>f. f\<lparr>
         InvocationCount := foldl (+) 0 (parsedValues pf (Name f) (xs @ ys)),
         InvocationCount2XX := foldl (+) 0 (parsedValues pf (Name f) (Result (Data b))),
         InvocationCountNon2XX := foldl (+) 0 (parsedValues pf (Name f) (Result (Data c))),
         AverageResponseTime := foldl (+) 0 (parsedValues pf (Name f) (Result (Data d)))\<rparr>) fs))"
    by (simp add: mixIn_Some merged_def response_def skip)
  moreover have "mixIn pf (Some fs) (Some a) (Some (response (xs @ v # ys))) (Some c) (Some d) =
       Inr (Some (map (\<lambda>f. f\<lparr>
         InvocationCount := foldl (+) 0 (parsedValues pf (Name f) (Result (Data a))),
         InvocationCount2XX := foldl (+) 0 (parsedValues pf (Name f) (xs @ ys)),
         InvocationCountNon2XX := foldl (+) 0 (parsedValues pf (Name f) (Result (Data c))),
         AverageResponseTime := foldl (+) 0 (parsedValues pf (Name f) (Result (Data d)))\<rparr>) fs))"
    by (simp add: mixIn_Some merged_def response_def skip)
  moreover have "mixIn pf (Some fs) (Some a) (Some b) (Some (response (xs @ v # ys))) (Some d) =
       Inr (Some (map (\<lambda>f. f\<lparr>
         InvocationCount := foldl (+) 0 (parsedValues pf (Name f) (Result (Data a))),
         InvocationCount2XX := foldl (+) 0 (parsedValues pf (Name f) (Result (Data b))),
         InvocationCountNon2XX := foldl (+) 0 (parsedValues pf (Name f) (xs @ ys)),
         AverageResponseTime := foldl (+) 0 (parsedValues pf (Name f) (Result (Data d)))\<rparr>) fs))"
    by (simp add: mixIn_Some merged_def response_def skip)
  moreover have "mixIn pf (Some fs) (Some a) (Some b) (Some c) (Some (response (xs @ v # ys))) =
       Inr (Some (map (\<lambda>f. f\<lparr>
         InvocationCount := foldl (+) 0 (parsedValues pf (Name f) (Result (Data a))),
         InvocationCount2XX := foldl (+) 0 (parsedValues pf (Name f) (Result (Data b))),
         InvocationCountNon2XX := foldl (+) 0 (parsedValues pf (Name f) (Result (Data c))),
         AverageResponseTime := foldl (+) 0 (parsedValues pf (Name f) (xs @ ys))\<rparr>) fs))"
    by (simp add: mixIn_Some merged_def response_def skip)
  ultimately show ?thesis using drop by blast
qed

theorem mixIn_skips_unparsed_witness:
  "snd (parseMetricValue parseDigits (snd (Value (sample ''fn1'' (IString ''NaN?''))))) \<noteq> None
   \<and> mixIn parseDigits (Some [fn ''fn1'' 7, fn ''fn2'' 9])
       (Some (response ([sample ''fn1'' (IString ''10''), sample ''fn2'' (IString ''3'')]
                @ sample ''fn1'' (IString ''NaN?'') # [sample ''fn1'' (IString ''5'')])))
       (Some (response [sample ''fn1'' (IString ''8'')]))
       (Some (response [sample ''fn2'' (IString ''3''), sample ''fn2'' (IString ''5'')]))
       (Some (response [sample ''fn1'' (IString ''5'')]))
     = Inr (Some [\<lparr>Name = ''fn1'', InvocationCount = 15, InvocationCount2XX = 8,
                    InvocationCountNon2XX = 0, AverageResponseTime = 5\<rparr>,
                  \<lparr>Name = ''fn2'', InvocationCount = 3, InvocationCount2XX = 0,
                    InvocationCountNon2XX = 8, AverageResponseTime = 0\<rparr>])"
  using mixIn_skips_unparsed [of parseDigits "sample ''fn1'' (IString ''NaN?'')"
      "[fn ''fn1'' 7, fn ''fn2'' 9]"
      "[sample ''fn1'' (IString ''10''), sample ''fn2'' (IString ''3'')]"
      "[sample ''fn1'' (IString ''5'')]"
      "response [sample ''fn1'' (IString ''8'')]"
      "response [sample ''fn2'' (IString ''3''), sample ''fn2'' (IString ''5'')]"
      "response [sample ''fn1'' (IString ''5'')]"
      "response [sample ''fn1'' (IString ''8'')]"
      "Some [fn ''fn1'' 7, fn ''fn2'' 9]"]
  by (simp add: parsedValues_def parseMetricValue_def parseDigits_examples sample_def
      response_def fn_def)

text \<open>
  Claim C7: for every function list, whatever its four derived fields hold, the merge
  with four responses without samples sets the four fields of every function to 0, and
  changes nothing else.
\<close>

theorem mixIn_empty_results:
  assumes "Result (Data a) = []" and "Result (Data b) = []"
    and "Result (Data c) = []" and "Result (Data d) = []"
  shows "mixIn pf (Some fs) (Some a) (Some b) (Some c) (Some d) =
    Inr (Some (map (\<lambda>f. f\<lparr>InvocationCount := 0, InvocationCount2XX := 0,
                           InvocationCountNon2XX := 0, AverageResponseTime := 0\<rparr>) fs))"
  using assms by (simp add: mixIn_Some merged_def parsedValues_def)

theorem mixIn_empty_results_witness:
  "Result (Data (response [])) = ([] :: real Sample list)
   \<and> mixIn parseDigits (Some [fn ''fn1'' 7, fn ''fn2'' 9])
       (Some (response [])) (Some (response [])) (Some (response [])) (Some (response []))
     = Inr (Some [fn ''fn1'' 0, fn ''fn2'' 0])"
  using mixIn_empty_results [of "response []" "response []" "response []" "response []"
      parseDigits "[fn ''fn1'' 7, fn ''fn2'' 9]"]
  by (simp add: response_def fn_def)



text \<open>
  Claim C9: the merge changes the four derived fields only. After the merge the list has
  the same length, the names are the same in the same order, and so is every field
  other than the four (the extension of the record). The responses are arguments that
  the merge reads and does not return.
\<close>

theorem mixIn_frame:
  "\<exists>fs'. mixIn pf (Some fs) (Some a) (Some b) (Some c) (Some d) = Inr (Some fs')
     \<and> length fs' = length fs
     \<and> map Name fs' = map Name fs
     \<and> map Function.more fs' = map Function.more fs"
  by (simp add: mixIn_Some Name_merged more_merged comp_def)

text \<open>
  Claim C10: for every value that is not a string the parser returns the value 0 with
  no error, so a sample with such a value whose \<open>function_name\<close> equals the name of
  a record is not skipped: wherever it stands in one of the four responses, the merge
  adds 0 to the sum the field has reached there, and goes on with the samples after it.
\<close>

theorem mixIn_nonstring_sample_adds_zero:
  assumes "\<not> isString (snd (Value v))" and "i < length fs"
    and "FunctionName (Metric v) = Name (fs ! i)"
  shows "parseMetricValue pf (snd (Value v)) = (0, None)
    \<and> (\<exists>fs'. mixIn pf (Some fs) (Some (response (xs @ v # ys))) (Some b) (Some c) (Some d)
              = Inr (Some fs')
      \<and> InvocationCount (fs' ! i) =
          foldl (+) (foldl (+) 0 (parsedValues pf (Name (fs ! i)) xs) + 0)
            (parsedValues pf (Name (fs ! i)) ys))
    \<and> (\<exists>fs'. mixIn pf (Some fs) (Some a) (Some (response (xs @ v # ys))) (Some c) (Some d)
              = Inr (Some fs')
      \<and> InvocationCount2XX (fs' ! i) =
          foldl (+) (foldl (+) 0 (parsedValues pf (Name (fs ! i)) xs) + 0)
            (parsedValues pf (Name (fs ! i)) ys))
    \<and> (\<exists>fs'. mixIn pf (Some fs) (Some a) (Some b) (Some (response (xs @ v # ys))) (Some d)
              = Inr (Some fs')
      \<and> InvocationCountNon2XX (fs' ! i) =
          foldl (+) (foldl (+) 0 (parsedValues pf (Name (fs ! i)) xs) + 0)
            (parsedValues pf (Name (fs ! i)) ys))
    \<and> (\<exists>fs'. mixIn pf (Some fs) (Some a) (Some b) (Some c) (Some (response (xs @ v # ys)))
              = Inr (Some fs')
      \<and> AverageResponseTime (fs' ! i) =
          foldl (+) (foldl (+) 0 (parsedValues pf (Name (fs ! i)) xs) + 0)
            (parsedValues pf (Name (fs ! i)) ys))"
proof -
  have "parsedValues pf (Name (fs ! i)) (v # ys) = 0 # parsedValues pf (Name (fs ! i)) ys"
    using assms by (simp add: parsedValues_def parseMetricValue_not_string)
  then have "parsedValues pf (Name (fs ! i)) (xs @ v # ys) =
      parsedValues pf (Name (fs ! i)) xs @ 0 # parsedValues pf (Name (fs ! i)) ys"
    by (simp add: parsedValues_append)
  then show ?thesis
    using assms(1,2)
    by (simp add: mixIn_Some merged_def response_def parseMetricValue_not_string)
qed

theorem mixIn_nonstring_sample_adds_zero_witness:
  "\<not> isString (snd (Value (sample ''fn1'' (INil :: real any))))
   \<and> (0::nat) < length [fn ''fn1'' 7]
   \<and> FunctionName (Metric (sample ''fn1'' (INil :: real any))) = Name ([fn ''fn1'' 7] ! 0)
   \<and> parseMetricValue parseDigits (snd (Value (sample ''fn1'' INil))) = (0, None)
   \<and> mixIn parseDigits (Some [fn ''fn1'' 7])
       (Some (response ([sample ''fn1'' (IString ''10'')] @ sample ''fn1'' INil
                    # [sample ''fn1'' (IString ''5'')])))
       (Some (response ([sample ''fn1'' (IString ''10'')] @ sample ''fn1'' INil
                    # [sample ''fn1'' (IString ''5'')])))
       (Some (response ([sample ''fn1'' (IString ''10'')] @ sample ''fn1'' INil
                    # [sample ''fn1'' (IString ''5'')])))
       (Some (response ([sample ''fn1'' (IString ''10'')] @ sample ''fn1'' INil
                    # [sample ''fn1'' (IString ''5'')])))
     = Inr (Some [fn ''fn1'' (10 + 0 + 5)])"
  using mixIn_nonstring_sample_adds_zero [of "sample ''fn1'' INil" 0 "[fn ''fn1'' 7]"
      parseDigits "[sample ''fn1'' (IString ''10'')]" "[sample ''fn1'' (IString ''5'')]"
      "response ([sample ''fn1'' (IString ''10'')] @ sample ''fn1'' INil
                   # [sample ''fn1'' (IString ''5'')])"
      "response ([sample ''fn1'' (IString ''10'')] @ sample ''fn1'' INil
                   # [sample ''fn1'' (IString ''5'')])"
      "response ([sample ''fn1'' (IString ''10'')] @ sample ''fn1'' INil
                   # [sample ''fn1'' (IString ''5'')])"
      "response ([sample ''fn1'' (IString ''10'')] @ sample ''fn1'' INil
                   # [sample ''fn1'' (IString ''5'')])"]
  by (simp add: mixIn_Some merged_def parsedValues_def parseMetricValue_def isString_def
      parseDigits_examples sample_def response_def fn_def)


section \<open>The decorator\<close>

text \<open>
  Claim C6: for every request in which the wrapped handler leaves a status code other
  than 200, the decorator sets the content type \<open>text/plain\<close>, writes the status 500
  and a text that ends with the decimal digits of the captured status code, and issues
  no fetch: the fetcher is as it was.
\<close>

theorem upstream_error_propagates:
  assumes "Code (handler r NewRecorder) \<noteq> StatusOK"
  shows "AddMetricsHandler lib handler q r =
    \<lparr>calls = [HeaderSet ''Content-Type'' ''text/plain'',
              WriteHeader 500,
              Write (''Error pulling metrics from provider/backend. Status code: ''
                       @ fmt_d (Code (handler r NewRecorder)))],
     fetched = [], prometheusQuery = q, panicked = None\<rparr>"
  using assms
  by (simp add: AddMetricsHandler_def Let_def recorderResult_def StatusInternalServerError_def)

theorem upstream_error_propagates_witness:
  "Code (unavailableHandler () NewRecorder) \<noteq> StatusOK
   \<and> AddMetricsHandler (testLib 4) unavailableHandler 0 () =
       \<lparr>calls = [HeaderSet ''Content-Type'' ''text/plain'',
                 WriteHeader 500,
                 Write ''Error pulling metrics from provider/backend. Status code: 503''],
        fetched = [], prometheusQuery = 0, panicked = None\<rparr>"
  using upstream_error_propagates [of unavailableHandler "()" "testLib 4" 0]
  by (simp add: unavailableHandler_def NewRecorder_def StatusOK_def fmt_d_def digits.simps)



end
